theory Spec2Isabelle
  imports Complex_Main
begin

section \<open>Language code tables (speech\_service.py, lines 219 to 281)\<close>

text \<open>
  A Python dict literal with pairwise distinct keys is an association list read with
  \<open>map_of\<close>; \<open>d.get(k, default)\<close> is the lookup with the default written out.
  Neither method has a raise site, so both are plain functions into strings.
\<close>

definition recognition_mapping :: "(string \<times> string) list" where
  "recognition_mapping =
     [(''en'', ''en-US''), (''hi'', ''hi-IN''), (''kn'', ''kn-IN''), (''ta'', ''ta-IN''),
      (''te'', ''te-IN''), (''ml'', ''ml-IN''), (''bn'', ''bn-IN''), (''gu'', ''gu-IN''),
      (''mr'', ''mr-IN''), (''pa'', ''pa-IN''), (''ur'', ''ur-PK''), (''es'', ''es-ES''),
      (''fr'', ''fr-FR''), (''de'', ''de-DE''), (''it'', ''it-IT''), (''pt'', ''pt-PT''),
      (''ru'', ''ru-RU''), (''ja'', ''ja-JP''), (''ko'', ''ko-KR''), (''zh'', ''zh-CN''),
      (''ar'', ''ar-SA'')]"

definition get_recognition_language_code :: "string \<Rightarrow> string" where
  "get_recognition_language_code language =
     (case map_of recognition_mapping language of
        Some v \<Rightarrow> v
      | None \<Rightarrow> ''en-US'')"

definition tts_mapping :: "(string \<times> string) list" where
  "tts_mapping =
     [(''kn'', ''kn''), (''ta'', ''ta''), (''te'', ''te''), (''ml'', ''ml''),
      (''bn'', ''bn''), (''gu'', ''gu''), (''mr'', ''mr''), (''pa'', ''pa''),
      (''ur'', ''ur''), (''zh'', ''zh-cn'')]"

definition get_tts_language_code :: "string \<Rightarrow> string" where
  "get_tts_language_code language =
     (case map_of tts_mapping language of
        Some v \<Rightarrow> v
      | None \<Rightarrow> language)"

section \<open>The speed field of TextToSpeechRequest (schemas.py, line 78)\<close>

text \<open>
  \<open>voice_speed: Optional[float] = Field(1.0, ge=0.5, le=2.0)\<close>. The field of the
  incoming JSON object is absent, \<open>null\<close>, or a number. \<open>Field\<close> gives the default
  to an absent field, \<open>Optional\<close> lets \<open>null\<close> through as \<open>None\<close>, and the bounds
  \<open>ge\<close> and \<open>le\<close> are validators: a number that breaks one is refused with a
  validation error, it is not altered.
\<close>

datatype json_number = Absent | Null | Number real

datatype validation_error = Greater_than_equal real | Less_than_equal real

definition voice_speed_field :: "json_number \<Rightarrow> validation_error + real option" where
  "voice_speed_field j =
     (case j of
        Absent \<Rightarrow> Inr (Some 1.0)
      | Null \<Rightarrow> Inr None
      | Number v \<Rightarrow>
          if \<not> 0.5 \<le> v then Inl (Greater_than_equal 0.5)
          else if \<not> v \<le> 2.0 then Inl (Less_than_equal 2.0)
          else Inr (Some v))"

section \<open>Exceptions\<close>

text \<open>
  The exceptions that the library calls of \<open>voice_to_text\<close> raise are told apart by
  its handlers: \<open>sr.UnknownValueError\<close>, \<open>sr.RequestError\<close>, and everything else.
  The module itself raises plain \<open>Exception(message)\<close> objects. An exception raised
  inside an \<open>except\<close> block carries the exception being handled (Python stores it as
  \<open>__context__\<close>); \<open>Failure message e\<close> is \<open>Exception(message)\<close> raised while
  handling \<open>e\<close>.
\<close>

datatype lib_exc = UnknownValueError | RequestError string | OtherError string

datatype exc = Lib lib_exc | Exception string

datatype failure = Failure string exc

fun str_lib :: "lib_exc \<Rightarrow> string" where
  "str_lib UnknownValueError = []"
| "str_lib (RequestError m) = m"
| "str_lib (OtherError m) = m"

fun str :: "exc \<Rightarrow> string" where
  "str (Lib e) = str_lib e"
| "str (Exception m) = m"

section \<open>The world outside the module\<close>

type_synonym path = string
type_synonym bytes = string

text \<open>
  A pydub \<open>AudioSegment\<close>: the module looks at its length in milliseconds
  (\<open>len(audio)\<close>, which is also its truth value in \<open>if audio_segment:\<close>, the class
  defining \<open>__len__\<close> and no \<open>__bool__\<close>) and hands it back to pydub.
\<close>

datatype segment = AudioSegment nat bytes

fun len :: "segment \<Rightarrow> nat" where
  "len (AudioSegment ms samples) = ms"

datatype audio_data = AudioData bytes

datatype gtts = GTTS string string bool

fun slow :: "gtts \<Rightarrow> bool" where
  "slow (GTTS text lang s) = s"

text \<open>
  The collaborators of the module, as functions of what they are given. A call that
  raises returns \<open>Inl\<close>; the decoders, the exporter, the base64 decoder, the audio file
  reader and gTTS raise exceptions of other classes than the two of
  \<open>speech_recognition\<close>, of which only the message is kept. \<open>tempname\<close> is the
  directory and random stem that \<open>tempfile\<close> picks for the call, \<open>uuid4\<close> the
  identifier drawn for the call. \<open>recognize_sphinx\<close> takes its optional \<open>language\<close>
  argument as an option: \<open>None\<close> when the caller leaves it out.
\<close>

record env =
  b64decode :: "string \<Rightarrow> string + bytes"
  tempname :: string
  from_file :: "string \<Rightarrow> bytes \<Rightarrow> string + segment"
  from_mp3 :: "bytes \<Rightarrow> string + segment"
  from_wav :: "bytes \<Rightarrow> string + segment"
  from_ogg :: "bytes \<Rightarrow> string + segment"
  export :: "segment \<Rightarrow> string \<Rightarrow> string + bytes"
  AudioFile :: "bytes \<Rightarrow> string + audio_data"
  recognize_google :: "audio_data \<Rightarrow> string \<Rightarrow> lib_exc + string"
  recognize_sphinx :: "audio_data \<Rightarrow> string option \<Rightarrow> lib_exc + string"
  uuid4 :: string
  gTTS :: "string \<Rightarrow> string \<Rightarrow> bool \<Rightarrow> string option"
  save :: "gtts \<Rightarrow> string + bytes"
  speedup :: "segment \<Rightarrow> real \<Rightarrow> string + segment"

text \<open>
  The file system is a map from paths to contents. Beside it the world keeps a journal:
  the calls the module makes that touch a file or a backend, in program order. Opening,
  writing and unlinking a file of the temporary directory do not fail.
\<close>

datatype event =
    Created path
  | Written path bytes
  | Unlinked path
  | Attempt string path
  | Opened path
  | Called_google string
  | Called_sphinx "string option"
  | Constructed gtts
  | Saved gtts path
  | Sped_up real

record world =
  files :: "path \<rightharpoonup> bytes"
  journal :: "event list"

definition emit :: "event \<Rightarrow> world \<Rightarrow> world" where
  "emit e w = w\<lparr>journal := journal w @ [e]\<rparr>"

definition create_file :: "path \<Rightarrow> world \<Rightarrow> world" where
  "create_file p w = emit (Created p) (w\<lparr>files := (files w)(p \<mapsto> [])\<rparr>)"

definition write_file :: "path \<Rightarrow> bytes \<Rightarrow> world \<Rightarrow> world" where
  "write_file p b w = emit (Written p b) (w\<lparr>files := (files w)(p \<mapsto> b)\<rparr>)"

definition unlink :: "path \<Rightarrow> world \<Rightarrow> world" where
  "unlink p w = emit (Unlinked p) (w\<lparr>files := (files w)(p := None)\<rparr>)"

definition exists :: "world \<Rightarrow> path \<Rightarrow> bool" where
  "exists w p = (files w p \<noteq> None)"

definition read_with :: "(bytes \<Rightarrow> string + 'a) \<Rightarrow> path \<Rightarrow> world \<Rightarrow> string + 'a" where
  "read_with f p w =
     (case files w p of
        None \<Rightarrow> Inl ''No such file or directory''
      | Some b \<Rightarrow> f b)"

text \<open>\<open>s.replace(old, new)\<close>: every occurrence, left to right, without overlap.\<close>

function replace :: "string \<Rightarrow> string \<Rightarrow> string \<Rightarrow> string" where
  "replace old new s =
     (if old = [] then new @ concat (map (\<lambda>c. c # new) s)
      else if s = [] then []
      else if take (length old) s = old then new @ replace old new (drop (length old) s)
      else hd s # replace old new (tl s))"
  by pat_completeness auto
termination
  by (relation "measure (\<lambda>(old, new, s). length s)") auto

declare replace.simps [simp del]

section \<open>voice\_to\_text (speech\_service.py, lines 28 to 141)\<close>

text \<open>
  Lines 62 to 77: the entry point of pydub chosen for a format name. An exception is
  \<open>Inl\<close>; \<open>Inr None\<close> is the chain falling through with \<open>audio_segment\<close> still
  \<open>None\<close>, which none of the five names of the loop does.
\<close>

definition load_format :: "env \<Rightarrow> string \<Rightarrow> path \<Rightarrow> world \<Rightarrow> string + segment option" where
  "load_format env format_type p w =
     (if format_type = ''m4a'' then map_sum id Some (read_with (from_file env ''m4a'') p w)
      else if format_type = ''mp3'' then map_sum id Some (read_with (from_mp3 env) p w)
      else if format_type = ''wav'' then map_sum id Some (read_with (from_wav env) p w)
      else if format_type = ''ogg'' then map_sum id Some (read_with (from_ogg env) p w)
      else if format_type = ''webm'' then map_sum id Some (read_with (from_file env ''webm'') p w)
      else Inr None)"

text \<open>Lines 60 to 80: the loop; \<open>break\<close> after the first load that does not raise.\<close>

fun try_formats :: "env \<Rightarrow> path \<Rightarrow> string list \<Rightarrow> world \<Rightarrow> segment option \<times> world" where
  "try_formats env raw [] w = (None, w)"
| "try_formats env raw (format_type # rest) w =
     (case load_format env format_type raw (emit (Attempt format_type raw) w) of
        Inr audio_segment \<Rightarrow> (audio_segment, emit (Attempt format_type raw) w)
      | Inl _ \<Rightarrow> try_formats env raw rest (emit (Attempt format_type raw) w))"

definition formats :: "string list" where
  "formats = [''m4a'', ''mp3'', ''wav'', ''ogg'', ''webm'']"

text \<open>
  Lines 53 to 94. The handler of line 90 is entered when the export raises; it writes
  the raw bytes, as the \<open>else\<close> branch of line 85 does.
\<close>

definition convert :: "env \<Rightarrow> bytes \<Rightarrow> path \<Rightarrow> world \<Rightarrow> world" where
  "convert env audio_bytes temp_file_path w =
     (let raw = replace ''.wav'' ''.raw'' temp_file_path;
          w1 = write_file raw audio_bytes w;
          (audio_segment, w2) = try_formats env raw formats w1
      in case audio_segment of
           None \<Rightarrow> write_file temp_file_path audio_bytes w2
         | Some seg \<Rightarrow>
             if len seg \<noteq> 0 then
               (case export env seg ''wav'' of
                  Inr wav \<Rightarrow> write_file temp_file_path wav w2
                | Inl conversion_error \<Rightarrow> write_file temp_file_path audio_bytes w2)
             else write_file temp_file_path audio_bytes w2)"

text \<open>
  Lines 103 to 124: the two backends. Line 118 calls \<open>recognize_sphinx(audio)\<close>, with
  no language argument.
\<close>

definition backends ::
  "env \<Rightarrow> audio_data \<Rightarrow> string \<Rightarrow> world \<Rightarrow> (exc + string \<times> real) \<times> world" where
  "backends env audio language w =
     (let recognition_language = get_recognition_language_code language;
          w2 = emit (Called_google recognition_language) w in
      case recognize_google env audio recognition_language of
        Inr text \<Rightarrow> (Inr (text, 0.85), w2)
      | Inl (RequestError m) \<Rightarrow>
          (let w3 = emit (Called_sphinx None) w2 in
           case recognize_sphinx env audio None of
             Inr text \<Rightarrow> (Inr (text, 0.7), w3)
           | Inl (RequestError m') \<Rightarrow>
               (Inl (Exception ''Speech recognition service unavailable''), w3)
           | Inl e \<Rightarrow> (Inl (Lib e), w3))
      | Inl e \<Rightarrow> (Inl (Lib e), w2))"

text \<open>
  Lines 96 to 124: the input stage of the recognizer (\<open>sr.AudioFile\<close>, the adjustment
  for ambient noise and the recording), then the backends.
\<close>

definition recognise ::
  "env \<Rightarrow> path \<Rightarrow> string \<Rightarrow> world \<Rightarrow> (exc + string \<times> real) \<times> world" where
  "recognise env temp_file_path language w =
     (let w1 = emit (Opened temp_file_path) w in
      case read_with (AudioFile env) temp_file_path w1 of
        Inl m \<Rightarrow> (Inl (Lib (OtherError m)), w1)
      | Inr audio \<Rightarrow> backends env audio language w1)"

text \<open>Lines 126 to 133: the \<open>finally\<close> block.\<close>

definition cleanup :: "path \<Rightarrow> world \<Rightarrow> world" where
  "cleanup temp_file_path w =
     foldl (\<lambda>w temp_path. if exists w temp_path then unlink temp_path w else w) w
       [temp_file_path, replace ''.wav'' ''.raw'' temp_file_path]"

text \<open>Lines 135 to 141: the three handlers of the outer \<open>try\<close>, in their order.\<close>

definition handler :: "exc \<Rightarrow> failure" where
  "handler e =
     (case e of
        Lib UnknownValueError \<Rightarrow> Failure ''Could not understand the audio'' e
      | Lib (RequestError m) \<Rightarrow> Failure (''Speech recognition service error: '' @ str e) e
      | _ \<Rightarrow> Failure (''Voice to text conversion failed: '' @ str e) e)"

definition voice_to_text ::
  "env \<Rightarrow> string \<Rightarrow> string \<Rightarrow> world \<Rightarrow> (failure + string \<times> real) \<times> world" where
  "voice_to_text env audio_data language w =
     (case b64decode env audio_data of
        Inl m \<Rightarrow> (Inl (handler (Lib (OtherError m))), w)
      | Inr audio_bytes \<Rightarrow>
          (let temp_file_path = tempname env @ ''.wav'';
               w1 = create_file temp_file_path w;
               (r, w2) = recognise env temp_file_path language
                           (convert env audio_bytes temp_file_path w1);
               w3 = cleanup temp_file_path w2
           in case r of
                Inl e \<Rightarrow> (Inl (handler e), w3)
              | Inr result \<Rightarrow> (Inr result, w3)))"

section \<open>text\_to\_speech (speech\_service.py, lines 143 to 217)\<close>

definition audio_output_dir :: string where
  "audio_output_dir = ''app/static/audio''"

text \<open>\<open>os.path.join\<close> of a directory and a relative file name.\<close>

definition join :: "string \<Rightarrow> string \<Rightarrow> string" where
  "join d f = d @ ''/'' @ f"

definition speedup_step ::
  "env \<Rightarrow> segment \<Rightarrow> real \<Rightarrow> world \<Rightarrow> (string + segment) \<times> world" where
  "speedup_step env audio playback_speed w =
     (speedup env audio playback_speed, emit (Sped_up playback_speed) w)"

definition export_step ::
  "env \<Rightarrow> segment \<Rightarrow> path \<Rightarrow> string \<Rightarrow> world \<Rightarrow> (string + unit) \<times> world" where
  "export_step env audio p fmt w =
     (case export env audio fmt of
        Inl m \<Rightarrow> (Inl m, w)
      | Inr data \<Rightarrow> (Inr (), write_file p data w))"

text \<open>
  Lines 182 to 202, the body of the inner \<open>try\<close>. The result is the duration,
  \<open>len(audio) / 1000.0\<close>, of the segment that was exported. The speed is a Python
  float, read as the number it denotes: no float lies between 0.8 and the float nearest
  to it, so the comparisons with the literals decide as they do on the reals.
\<close>

definition adjust ::
  "env \<Rightarrow> path \<Rightarrow> path \<Rightarrow> real \<Rightarrow> world \<Rightarrow> (string + real) \<times> world" where
  "adjust env temp_audio_path audio_path voice_speed w =
     (if voice_speed \<noteq> 1.0 then
        (case read_with (from_mp3 env) temp_audio_path w of
           Inl m \<Rightarrow> (Inl m, w)
         | Inr audio \<Rightarrow>
             (let (r, w1) =
                    (if voice_speed > 1.0 then speedup_step env audio voice_speed w
                     else if voice_speed < 1.0 then
                       (if voice_speed \<ge> 0.8 then speedup_step env audio voice_speed w
                        else (Inr audio, w))
                     else (Inr audio, w))
              in case r of
                   Inl m \<Rightarrow> (Inl m, w1)
                 | Inr audio' \<Rightarrow>
                     (case export_step env audio' audio_path ''mp3'' w1 of
                        (Inl m, w2) \<Rightarrow> (Inl m, w2)
                      | (Inr u, w2) \<Rightarrow> (Inr (real (len audio') / 1000), w2))))
      else
        (case read_with (from_mp3 env) temp_audio_path w of
           Inl m \<Rightarrow> (Inl m, w)
         | Inr audio \<Rightarrow>
             (case export_step env audio audio_path ''mp3'' w of
                (Inl m, w2) \<Rightarrow> (Inl m, w2)
              | (Inr u, w2) \<Rightarrow> (Inr (real (len audio) / 1000), w2))))"

text \<open>Lines 215 to 217: the handler of the outer \<open>try\<close>.\<close>

definition tts_handler :: "string \<Rightarrow> failure" where
  "tts_handler m = Failure (''Text to speech conversion failed: '' @ m) (Lib (OtherError m))"

text \<open>
  The temporary file is created on line 177 and \<open>tts.save\<close> runs on line 178, inside
  the \<open>with\<close> block (which closes the file and, with \<open>delete=False\<close>, keeps it); the
  \<open>try\<close> whose \<open>finally\<close> unlinks the file starts on line 181.
\<close>

definition text_to_speech ::
  "env \<Rightarrow> string \<Rightarrow> string \<Rightarrow> real \<Rightarrow> world \<Rightarrow> (failure + string \<times> real) \<times> world" where
  "text_to_speech env text language voice_speed w =
     (let audio_id = uuid4 env;
          audio_filename = audio_id @ ''.mp3'';
          audio_path = join audio_output_dir audio_filename;
          tts_language = get_tts_language_code language;
          tts = GTTS text tts_language (voice_speed < 0.8);
          w1 = emit (Constructed tts) w
      in case gTTS env text tts_language (voice_speed < 0.8) of
           Some m \<Rightarrow> (Inl (tts_handler m), w1)
         | None \<Rightarrow>
             (let temp_audio_path = tempname env @ ''.mp3'';
                  w2 = emit (Saved tts temp_audio_path) (create_file temp_audio_path w1)
              in case save env tts of
                   Inl m \<Rightarrow> (Inl (tts_handler m), w2)
                 | Inr mp3 \<Rightarrow>
                     (let (r, w3) = adjust env temp_audio_path audio_path voice_speed
                                      (write_file temp_audio_path mp3 w2);
                          w4 = (if exists w3 temp_audio_path then unlink temp_audio_path w3
                                else w3)
                      in case r of
                           Inl m \<Rightarrow> (Inl (tts_handler m), w4)
                         | Inr duration \<Rightarrow>
                             (Inr (''/api/v1/audio/'' @ audio_filename, duration), w4))))"

section \<open>Notions used in the statements\<close>

text \<open>
  The candidates that a first-success search over a list of format names tries, and the
  segment it ends with, said in terms of what each load would do on the file \<open>raw\<close>:
  a candidate is tried only when every candidate before it raised.
\<close>

fun attempts :: "env \<Rightarrow> path \<Rightarrow> world \<Rightarrow> string list \<Rightarrow> string list" where
  "attempts env raw w [] = []"
| "attempts env raw w (f # fs) =
     (case load_format env f raw w of
        Inr s \<Rightarrow> [f]
      | Inl m \<Rightarrow> f # attempts env raw w fs)"

fun first_loaded :: "env \<Rightarrow> path \<Rightarrow> world \<Rightarrow> string list \<Rightarrow> segment option" where
  "first_loaded env raw w [] = None"
| "first_loaded env raw w (f # fs) =
     (case load_format env f raw w of
        Inr s \<Rightarrow> s
      | Inl m \<Rightarrow> first_loaded env raw w fs)"

text \<open>The content of the temporary WAV file when the conversion block is left.\<close>

definition normalized :: "env \<Rightarrow> bytes \<Rightarrow> path \<Rightarrow> world \<Rightarrow> bytes" where
  "normalized env audio_bytes temp_file_path w =
     the (files (convert env audio_bytes temp_file_path w) temp_file_path)"

text \<open>The audio that reaches the backends, when the call gets that far.\<close>

definition heard :: "env \<Rightarrow> string \<Rightarrow> world \<Rightarrow> audio_data option" where
  "heard env audio_data w =
     (case b64decode env audio_data of
        Inl m \<Rightarrow> None
      | Inr audio_bytes \<Rightarrow>
          (let temp_file_path = tempname env @ ''.wav'' in
           case read_with (AudioFile env) temp_file_path
                  (convert env audio_bytes temp_file_path (create_file temp_file_path w)) of
             Inl m \<Rightarrow> None
           | Inr audio \<Rightarrow> Some audio))"

fun is_call :: "event \<Rightarrow> bool" where
  "is_call (Called_google l) = True"
| "is_call (Called_sphinx l) = True"
| "is_call e = False"


text \<open>
  The two failures of recognition that the handlers keep apart: line 136, and line 141
  handling the exception of line 121.
\<close>

definition UnintelligibleAudio :: failure where
  "UnintelligibleAudio = Failure ''Could not understand the audio'' (Lib UnknownValueError)"

definition ServiceUnavailable :: failure where
  "ServiceUnavailable =
     Failure ''Voice to text conversion failed: Speech recognition service unavailable''
       (Exception ''Speech recognition service unavailable'')"

fun message :: "failure \<Rightarrow> string" where
  "message (Failure m e) = m"




section \<open>Example worlds\<close>

definition w0 :: world where
  "w0 = \<lparr>files = Map.empty, journal = []\<rparr>"

text \<open>
  An environment in which the mp3 reader accepts what it is given and every backend
  answers. Its base64 decoder answers as \<open>base64.b64decode\<close> does without
  \<open>validate=True\<close> on the payloads used below: \<open>aGVsbG8=\<close> is \<open>hello\<close>;
  characters outside the alphabet are discarded, so that \<open>aGVs bG8=\<close> is \<open>hello\<close>
  too and \<open>!!!!\<close> is the empty byte string; \<open>abc\<close> raises for its padding.
\<close>

definition env_ok :: env where
  "env_ok = \<lparr>
     b64decode = (\<lambda>s. if s = ''aGVsbG8='' \<or> s = ''aGVs bG8='' then Inr ''hello''
                      else if s = ''!!!!'' then Inr []
                      else Inl ''Incorrect padding''),
     tempname = ''/tmp/tmpk3v9x2ab'',
     from_file = (\<lambda>f b. Inl ''Decoding failed''),
     from_mp3 = (\<lambda>b. Inr (AudioSegment 600 b)),
     from_wav = (\<lambda>b. Inl ''Decoding failed''),
     from_ogg = (\<lambda>b. Inl ''Decoding failed''),
     export = (\<lambda>seg f. case seg of AudioSegment n d \<Rightarrow> Inr (f @ '':'' @ d)),
     AudioFile = (\<lambda>b. Inr (AudioData b)),
     recognize_google = (\<lambda>a l. Inr ''hello world''),
     recognize_sphinx = (\<lambda>a l. Inr ''hello word''),
     uuid4 = ''123e4567-e89b-12d3-a456-426614174000'',
     gTTS = (\<lambda>t l s. None),
     save = (\<lambda>g. Inr ''ID3''),
     speedup = (\<lambda>seg sp. case seg of AudioSegment n d \<Rightarrow>
                  Inr (AudioSegment (nat \<lfloor>real n / sp\<rfloor>) d))\<rparr>"

text \<open>The same with the online recognition backend out of reach.\<close>

definition google_unreachable :: env where
  "google_unreachable =
     env_ok\<lparr>recognize_google := (\<lambda>a l. Inl (RequestError ''recognition connection failed''))\<rparr>"

text \<open>The same with both recognition backends out of reach.\<close>

definition both_unreachable :: env where
  "both_unreachable =
     google_unreachable\<lparr>recognize_sphinx :=
       (\<lambda>a l. Inl (RequestError ''missing PocketSphinx module''))\<rparr>"

text \<open>The same as \<open>env_ok\<close> with a recognition backend that hears no speech.\<close>

definition silence :: env where
  "silence = env_ok\<lparr>recognize_google := (\<lambda>a l. Inl UnknownValueError)\<rparr>"

text \<open>The same as \<open>env_ok\<close> with the synthesis backend out of reach.\<close>

definition gtts_unreachable :: env where
  "gtts_unreachable = env_ok\<lparr>save := (\<lambda>g. Inl ''Failed to connect'')\<rparr>"

text \<open>The same as \<open>env_ok\<close> with an export that raises.\<close>

definition export_fails :: env where
  "export_fails = env_ok\<lparr>export := (\<lambda>seg f. Inl ''Encoding failed'')\<rparr>"

text \<open>The same as \<open>env_ok\<close> with no decoder that accepts the payload.\<close>

definition undecodable :: env where
  "undecodable = env_ok\<lparr>from_mp3 := (\<lambda>b. Inl ''Decoding failed'')\<rparr>"



section \<open>Language code mapping\<close>

text \<open>
  Both mapping methods are total functions into strings: a dictionary lookup with a
  default has no raise site.
\<close>

lemma get_tts_language_code_unknown:
  "map_of tts_mapping language = None \<Longrightarrow> get_tts_language_code language = language"
  by (simp add: get_tts_language_code_def)

text \<open>
  C3, as stated, at the code \<open>sv\<close>, which has no entry in the recognition table: the
  recognition mapping does not return it unchanged.
\<close>

theorem recognition_unknown_not_unchanged:
  "\<not> (map_of recognition_mapping ''sv'' = None \<longrightarrow>
        get_recognition_language_code ''sv'' = ''sv'')"
  by (simp add: recognition_mapping_def get_recognition_language_code_def)

text \<open>
  C3, amended: for a code with a table entry each mapping returns the mapped value, and
  for a code with no entry in the recognition table the recognition mapping returns the
  baseline locale \<open>en-US\<close>.
\<close>

theorem language_codes_mapped:
  "(\<forall>v. map_of recognition_mapping language = Some v \<longrightarrow>
         get_recognition_language_code language = v) \<and>
   (\<forall>v. map_of tts_mapping language = Some v \<longrightarrow> get_tts_language_code language = v) \<and>
   (map_of recognition_mapping language = None \<longrightarrow>
         get_recognition_language_code language = ''en-US'')"
  by (simp add: get_recognition_language_code_def get_tts_language_code_def)

theorem language_codes_mapped_witness:
  "map_of recognition_mapping ''zh'' = Some ''zh-CN'' \<and>
   get_recognition_language_code ''zh'' = ''zh-CN'' \<and>
   map_of tts_mapping ''zh'' = Some ''zh-cn'' \<and>
   get_tts_language_code ''zh'' = ''zh-cn'' \<and>
   map_of recognition_mapping ''sv'' = None \<and>
   get_recognition_language_code ''sv'' = ''en-US''"
proof -
  have r: "map_of recognition_mapping ''zh'' = Some ''zh-CN''"
    by (simp add: recognition_mapping_def)
  have t: "map_of tts_mapping ''zh'' = Some ''zh-cn''"
    by (simp add: tts_mapping_def)
  have n: "map_of recognition_mapping ''sv'' = None"
    by (simp add: recognition_mapping_def)
  show ?thesis
    using language_codes_mapped [of "''zh''"] language_codes_mapped [of "''sv''"] r t n
    by simp
qed

section \<open>The speed field\<close>

text \<open>
  C8, as stated, at the speed 3: the request is not processed with the nearest value of
  the interval, 2; it is refused.
\<close>

theorem voice_speed_not_clamped:
  "voice_speed_field (Number 3) = Inl (Less_than_equal 2) \<and>
   voice_speed_field (Number 3) \<noteq> Inr (Some (max (1 / 2) (min 2 3)))"
  by (simp add: voice_speed_field_def)

text \<open>
  C8, amended: the speed field defaults to 1.0 when absent; a supplied speed inside
  [0.5, 2.0] is accepted as it is, and a supplied speed outside that interval is refused
  with a validation error.
\<close>

theorem voice_speed_validated:
  "voice_speed_field Absent = Inr (Some 1) \<and>
   (1 / 2 \<le> v \<and> v \<le> 2 \<longrightarrow> voice_speed_field (Number v) = Inr (Some v)) \<and>
   (v < 1 / 2 \<or> 2 < v \<longrightarrow> (\<exists>e. voice_speed_field (Number v) = Inl e))"
  by (auto simp add: voice_speed_field_def)

theorem voice_speed_validated_witness:
  "voice_speed_field (Number (3 / 2)) = Inr (Some (3 / 2)) \<and>
   (\<exists>e. voice_speed_field (Number (1 / 4)) = Inl e)"
proof -
  have a: "(1::real) / 2 \<le> 3 / 2 \<and> (3::real) / 2 \<le> 2"
    by simp
  have b: "(1::real) / 4 < 1 / 2 \<or> (2::real) < 1 / 4"
    by simp
  show ?thesis
    using voice_speed_validated [of "3 / 2"] voice_speed_validated [of "1 / 4"] a b
    by blast
qed

section \<open>The world: files and journal after each operation\<close>

lemma files_emit [simp]: "files (emit e w) = files w"
  by (simp add: emit_def)

lemma journal_emit [simp]: "journal (emit e w) = journal w @ [e]"
  by (simp add: emit_def)

lemma files_create_file [simp]: "files (create_file p w) = (files w)(p \<mapsto> [])"
  by (simp add: create_file_def)

lemma journal_create_file [simp]: "journal (create_file p w) = journal w @ [Created p]"
  by (simp add: create_file_def)

lemma files_write_file [simp]: "files (write_file p b w) = (files w)(p \<mapsto> b)"
  by (simp add: write_file_def)

lemma journal_write_file [simp]: "journal (write_file p b w) = journal w @ [Written p b]"
  by (simp add: write_file_def)

lemma files_unlink [simp]: "files (unlink p w) = (files w)(p := None)"
  by (simp add: unlink_def)

lemma journal_unlink [simp]: "journal (unlink p w) = journal w @ [Unlinked p]"
  by (simp add: unlink_def)

section \<open>String replacement changes a path that ends in the old suffix\<close>

lemma replace_hit:
  "old \<noteq> [] \<Longrightarrow> s \<noteq> [] \<Longrightarrow> take (length old) s = old \<Longrightarrow>
     replace old new s = new @ replace old new (drop (length old) s)"
  by (subst replace.simps) simp

lemma replace_miss:
  "old \<noteq> [] \<Longrightarrow> s \<noteq> [] \<Longrightarrow> take (length old) s \<noteq> old \<Longrightarrow>
     replace old new s = hd s # replace old new (tl s)"
  by (subst replace.simps) simp

lemma replace_hit_differs:
  assumes "old \<noteq> []" "s \<noteq> []" "take (length old) s = old"
    and "length new = length old" "new \<noteq> old"
  shows "replace old new s \<noteq> s"
proof
  assume "replace old new s = s"
  then have "new @ replace old new (drop (length old) s) = old @ drop (length old) s"
    using replace_hit [OF assms(1-3), of new] append_take_drop_id [of "length old" s] assms(3)
    by simp
  then show False
    using assms(4,5) by simp
qed

lemma replace_suffix_differs:
  assumes "old \<noteq> []" "length new = length old" "new \<noteq> old"
  shows "replace old new (t @ old) \<noteq> t @ old"
proof (induction t)
  case Nil
  show ?case
    using replace_hit_differs [of old old new] assms by simp
next
  case (Cons c t)
  show ?case
  proof (cases "take (length old) ((c # t) @ old) = old")
    case True
    show ?thesis
      by (rule replace_hit_differs [OF assms(1) _ True assms(2,3)]) simp
  next
    case False
    have "replace old new ((c # t) @ old) =
            hd ((c # t) @ old) # replace old new (tl ((c # t) @ old))"
      by (rule replace_miss [OF assms(1) _ False]) simp
    with Cons show ?thesis by simp
  qed
qed

lemma replace_wav_differs:
  "replace ''.wav'' ''.raw'' (t @ ''.wav'') \<noteq> t @ ''.wav''"
  by (rule replace_suffix_differs) simp_all

section \<open>The decoding loop\<close>

text \<open>
  The loop reads the world only through the content of the file it is given, leaves the
  files alone, and journals one attempt per candidate it tries.
\<close>

lemma read_with_files: "files w p = files w' p \<Longrightarrow> read_with f p w = read_with f p w'"
  by (simp add: read_with_def)

lemma load_format_files:
  "files w p = files w' p \<Longrightarrow> load_format env f p w = load_format env f p w'"
  by (simp add: load_format_def read_with_def)

lemma attempts_files:
  "files w p = files w' p \<Longrightarrow> attempts env p w fs = attempts env p w' fs"
  by (induction fs) (simp_all add: load_format_files [of w p w'] split: sum.split)

lemma first_loaded_files:
  "files w p = files w' p \<Longrightarrow> first_loaded env p w fs = first_loaded env p w' fs"
  by (induction fs) (simp_all add: load_format_files [of w p w'] split: sum.split)

lemma try_formats_fst: "fst (try_formats env raw fs w) = first_loaded env raw w fs"
proof (induction fs arbitrary: w)
  case Nil
  show ?case by simp
next
  case (Cons f fs)
  have l: "load_format env f raw (emit (Attempt f raw) w) = load_format env f raw w"
    by (rule load_format_files) simp
  have r: "first_loaded env raw (emit (Attempt f raw) w) fs = first_loaded env raw w fs"
    by (rule first_loaded_files) simp
  show ?case
    by (simp add: l r Cons.IH split: sum.split)
qed

lemma try_formats_files: "files (snd (try_formats env raw fs w)) = files w"
  by (induction fs arbitrary: w) (simp_all split: sum.split)

lemma try_formats_journal:
  "journal (snd (try_formats env raw fs w)) =
     journal w @ map (\<lambda>f. Attempt f raw) (attempts env raw w fs)"
proof (induction fs arbitrary: w)
  case Nil
  show ?case by simp
next
  case (Cons f fs)
  have l: "load_format env f raw (emit (Attempt f raw) w) = load_format env f raw w"
    by (rule load_format_files) simp
  have r: "attempts env raw (emit (Attempt f raw) w) fs = attempts env raw w fs"
    by (rule attempts_files) simp
  show ?case
    by (simp add: l r Cons.IH split: sum.split)
qed

lemma attempts_prefix:
  "attempts env raw w fs = take (length (attempts env raw w fs)) fs"
  by (induction fs) (simp_all split: sum.split)

lemma attempts_butlast_raise:
  "f \<in> set (butlast (attempts env raw w fs)) \<Longrightarrow> \<exists>m. load_format env f raw w = Inl m"
  by (induction fs) (auto split: sum.splits if_splits)

lemma first_loaded_last:
  "first_loaded env raw w fs = Some seg \<Longrightarrow>
     attempts env raw w fs \<noteq> [] \<and>
     load_format env (last (attempts env raw w fs)) raw w = Inr (Some seg)"
  by (induction fs) (auto split: sum.splits)

lemma first_loaded_None:
  "first_loaded env raw w fs = None \<Longrightarrow> \<forall>f \<in> set fs. load_format env f raw w \<noteq> Inr None \<Longrightarrow>
     attempts env raw w fs = fs \<and> (\<forall>f \<in> set fs. \<exists>m. load_format env f raw w = Inl m)"
  by (induction fs) (auto split: sum.splits)

lemma load_format_formats:
  "f \<in> set formats \<Longrightarrow> load_format env f raw w \<noteq> Inr None"
  by (auto simp add: formats_def load_format_def map_sum_def split: sum.splits)

section \<open>The conversion block, the backends and the cleanup\<close>

lemma convert_eq:
  "convert env b p w =
     write_file p
       (case fst (try_formats env (replace ''.wav'' ''.raw'' p) formats
                    (write_file (replace ''.wav'' ''.raw'' p) b w)) of
          None \<Rightarrow> b
        | Some seg \<Rightarrow>
            if len seg \<noteq> 0
            then (case export env seg ''wav'' of Inr wav \<Rightarrow> wav | Inl m \<Rightarrow> b)
            else b)
       (snd (try_formats env (replace ''.wav'' ''.raw'' p) formats
               (write_file (replace ''.wav'' ''.raw'' p) b w)))"
  by (simp add: convert_def Let_def split: prod.split option.split sum.split)

lemma files_convert:
  "files (convert env b p w) =
     (files w)(replace ''.wav'' ''.raw'' p \<mapsto> b, p \<mapsto> normalized env b p w)"
  by (simp add: normalized_def convert_eq try_formats_files)

lemma journal_convert:
  "journal (convert env b p w) =
     journal w @ Written (replace ''.wav'' ''.raw'' p) b #
       map (\<lambda>f. Attempt f (replace ''.wav'' ''.raw'' p))
         (attempts env (replace ''.wav'' ''.raw'' p)
            (write_file (replace ''.wav'' ''.raw'' p) b w) formats) @
       [Written p (normalized env b p w)]"
  by (simp add: normalized_def convert_eq try_formats_files try_formats_journal)

lemma normalized_eq:
  "normalized env b p w =
     (case first_loaded env (replace ''.wav'' ''.raw'' p)
             (write_file (replace ''.wav'' ''.raw'' p) b w) formats of
        None \<Rightarrow> b
      | Some seg \<Rightarrow>
          if len seg \<noteq> 0 then (case export env seg ''wav'' of Inr wav \<Rightarrow> wav | Inl m \<Rightarrow> b)
          else b)"
  by (simp add: normalized_def convert_eq try_formats_fst)

lemma fst_backends: "fst (backends env a l w) = fst (backends env a l w')"
  by (simp add: backends_def Let_def split: sum.split lib_exc.split)

lemma files_backends: "files (snd (backends env a l w)) = files w"
  by (simp add: backends_def Let_def split: sum.split lib_exc.split)

lemma journal_backends:
  "journal (snd (backends env a l w)) =
     journal w @ Called_google (get_recognition_language_code l) #
       (case recognize_google env a (get_recognition_language_code l) of
          Inl (RequestError m) \<Rightarrow> [Called_sphinx None]
        | _ \<Rightarrow> [])"
  by (simp add: backends_def Let_def split: sum.split lib_exc.split)

lemma files_recognise: "files (snd (recognise env p l w)) = files w"
  by (simp add: recognise_def Let_def files_backends split: sum.split)

lemma files_cleanup:
  "files (cleanup p w) = (files w)(p := None, replace ''.wav'' ''.raw'' p := None)"
  by (auto simp add: cleanup_def exists_def fun_upd_idem_iff)

lemma journal_cleanup:
  "files w p \<noteq> None \<Longrightarrow> files w (replace ''.wav'' ''.raw'' p) \<noteq> None \<Longrightarrow>
   replace ''.wav'' ''.raw'' p \<noteq> p \<Longrightarrow>
     journal (cleanup p w) = journal w @ [Unlinked p, Unlinked (replace ''.wav'' ''.raw'' p)]"
  by (simp add: cleanup_def exists_def)

lemma calls_cleanup: "filter is_call (journal (cleanup p w)) = filter is_call (journal w)"
  by (simp add: cleanup_def exists_def)

section \<open>The whole recognition call\<close>

lemma voice_to_text_undecodable:
  "b64decode env audio_data = Inl m \<Longrightarrow>
     voice_to_text env audio_data language w =
       (Inl (Failure (''Voice to text conversion failed: '' @ m) (Lib (OtherError m))), w)"
  by (simp add: voice_to_text_def handler_def)

lemma read_normalized:
  "read_with f p (emit e (convert env b p w)) = f (normalized env b p w)"
  by (simp add: read_with_def files_convert)

lemma fst_recognise:
  "fst (recognise env p l (convert env b p w)) =
     (case AudioFile env (normalized env b p w) of
        Inl m \<Rightarrow> Inl (Lib (OtherError m))
      | Inr a \<Rightarrow> fst (backends env a l w'))"
proof (cases "AudioFile env (normalized env b p w)")
  case (Inl m)
  then show ?thesis
    by (simp add: recognise_def Let_def read_normalized)
next
  case (Inr a)
  have "fst (backends env a l (emit (Opened p) (convert env b p w))) = fst (backends env a l w')"
    by (rule fst_backends)
  with Inr show ?thesis
    by (simp add: recognise_def Let_def read_normalized)
qed

lemma journal_recognise:
  "journal (snd (recognise env p l (convert env b p w))) =
     journal (convert env b p w) @ Opened p #
       (case AudioFile env (normalized env b p w) of
          Inl m \<Rightarrow> []
        | Inr a \<Rightarrow> Called_google (get_recognition_language_code l) #
            (case recognize_google env a (get_recognition_language_code l) of
               Inl (RequestError m) \<Rightarrow> [Called_sphinx None]
             | _ \<Rightarrow> []))"
  by (simp add: recognise_def Let_def read_normalized journal_backends split: sum.split)

lemma fst_voice_to_text:
  "b64decode env audio_data = Inr b \<Longrightarrow>
     fst (voice_to_text env audio_data language w) =
       (case AudioFile env (normalized env b (tempname env @ ''.wav'')
                              (create_file (tempname env @ ''.wav'') w)) of
          Inl m \<Rightarrow> Inl (handler (Lib (OtherError m)))
        | Inr a \<Rightarrow> map_sum handler id (fst (backends env a language w)))"
proof -
  assume d: "b64decode env audio_data = Inr b"
  let ?p = "tempname env @ ''.wav''"
  let ?w = "convert env b ?p (create_file ?p w)"
  have "fst (voice_to_text env audio_data language w) =
          map_sum handler id (fst (recognise env ?p language ?w))"
    by (simp add: voice_to_text_def d Let_def split: prod.split sum.split)
  then show ?thesis
    by (simp add: fst_recognise [of env ?p language b _ w] split: sum.split)
qed

lemma snd_voice_to_text:
  "b64decode env audio_data = Inr b \<Longrightarrow>
     snd (voice_to_text env audio_data language w) =
       cleanup (tempname env @ ''.wav'')
         (snd (recognise env (tempname env @ ''.wav'') language
                 (convert env b (tempname env @ ''.wav'')
                    (create_file (tempname env @ ''.wav'') w))))"
  by (simp add: voice_to_text_def Let_def split: prod.split sum.split)

lemma heard_eq:
  "b64decode env audio_data = Inr b \<Longrightarrow>
     heard env audio_data w =
       (case AudioFile env (normalized env b (tempname env @ ''.wav'')
                              (create_file (tempname env @ ''.wav'') w)) of
          Inl m \<Rightarrow> None
        | Inr a \<Rightarrow> Some a)"
  by (simp add: heard_def Let_def read_with_def files_convert)

lemma heard_None: "b64decode env audio_data = Inl m \<Longrightarrow> heard env audio_data w = None"
  by (simp add: heard_def)

lemma journal_voice_to_text:
  assumes d: "b64decode env audio_data = Inr b"
  shows "journal (snd (voice_to_text env audio_data language w)) =
     journal w @
     [Created (tempname env @ ''.wav''),
      Written (replace ''.wav'' ''.raw'' (tempname env @ ''.wav'')) b] @
     map (\<lambda>f. Attempt f (replace ''.wav'' ''.raw'' (tempname env @ ''.wav'')))
       (attempts env (replace ''.wav'' ''.raw'' (tempname env @ ''.wav''))
          (write_file (replace ''.wav'' ''.raw'' (tempname env @ ''.wav'')) b
             (create_file (tempname env @ ''.wav'') w)) formats) @
     [Written (tempname env @ ''.wav'')
        (normalized env b (tempname env @ ''.wav'') (create_file (tempname env @ ''.wav'') w)),
      Opened (tempname env @ ''.wav'')] @
     (case heard env audio_data w of
        None \<Rightarrow> []
      | Some a \<Rightarrow> Called_google (get_recognition_language_code language) #
          (case recognize_google env a (get_recognition_language_code language) of
             Inl (RequestError m) \<Rightarrow> [Called_sphinx None]
           | _ \<Rightarrow> [])) @
     [Unlinked (tempname env @ ''.wav''),
      Unlinked (replace ''.wav'' ''.raw'' (tempname env @ ''.wav''))]"
proof -
  let ?p = "tempname env @ ''.wav''"
  let ?raw = "replace ''.wav'' ''.raw'' ?p"
  let ?wc = "convert env b ?p (create_file ?p w)"
  let ?wr = "snd (recognise env ?p language ?wc)"
  have f: "files ?wr ?p \<noteq> None" "files ?wr ?raw \<noteq> None"
    by (simp_all add: files_recognise files_convert)
  have n: "?raw \<noteq> ?p"
    by (rule replace_wav_differs)
  have "journal (cleanup ?p ?wr) = journal ?wr @ [Unlinked ?p, Unlinked ?raw]"
    by (rule journal_cleanup [OF f n])
  then show ?thesis
    by (simp add: snd_voice_to_text [OF d] journal_recognise journal_convert heard_eq [OF d]
          split: sum.split)
qed

lemma calls_attempts [simp]: "filter is_call (map (\<lambda>f. Attempt f raw) fs) = []"
  by (induction fs) simp_all

text \<open>
  On every exit path of \<open>voice_to_text\<close> that created them, the temporary WAV file and
  the raw copy are gone from the file system when the call ends.
\<close>

lemma voice_to_text_removes_temporary_files:
  "files (snd (voice_to_text env audio_data language w)) (tempname env @ ''.wav'') =
     (case b64decode env audio_data of Inl m \<Rightarrow> files w (tempname env @ ''.wav'') | Inr b \<Rightarrow> None)"
  "b64decode env audio_data = Inr b \<Longrightarrow>
    files (snd (voice_to_text env audio_data language w))
     (replace ''.wav'' ''.raw'' (tempname env @ ''.wav'')) = None"
  by (simp_all add: voice_to_text_def Let_def files_cleanup split: sum.split prod.split)

section \<open>Recognition: an undecodable payload\<close>




section \<open>Recognition: the decoder\<close>

text \<open>
  C2, as stated, in a world where the mp3 reader is the first to accept the payload (with
  a segment of 600 ms) and the export raises: the normalized audio is the raw payload,
  not a re-encoding of the segment of the first candidate that succeeded.
\<close>

theorem export_failure_falls_back_to_raw:
  "first_loaded export_fails ''/tmp/tmpk3v9x2ab.raw''
     (write_file ''/tmp/tmpk3v9x2ab.raw'' ''hello'' w0) formats = Some (AudioSegment 600 ''hello'') \<and>
   normalized export_fails ''hello'' ''/tmp/tmpk3v9x2ab.wav'' w0 = ''hello'' \<and>
   export export_fails (AudioSegment 600 ''hello'') ''wav'' \<noteq> Inr ''hello''"
  by code_simp

text \<open>
  C2, amended. The candidates are tried in the fixed order m4a, mp3, wav, ogg, webm
  (the attempts are a prefix of the list), every candidate tried before the last one
  raised, and the journal of the block holds exactly these attempts between the write
  of the raw copy and the write of the normalized file. When a candidate loads, it is
  the last one tried, and the normalized audio is the WAV export of its segment if the
  segment is not empty and the export does not raise, the raw payload otherwise. When
  every candidate raises, all five were tried and the normalized audio is the raw
  payload. The block has no raising exit; after it, the call fails before recognition
  only when the input stage of the recognizer cannot open the normalized file, and
  otherwise ends as the backends decide.
\<close>

theorem decoding_first_success:
  assumes raw: "raw = replace ''.wav'' ''.raw'' p"
    and w1: "w1 = write_file raw audio_bytes w"
  shows "attempts env raw w1 formats = take (length (attempts env raw w1 formats)) formats \<and>
     (\<forall>f \<in> set (butlast (attempts env raw w1 formats)). \<exists>m. load_format env f raw w1 = Inl m) \<and>
     journal (convert env audio_bytes p w) =
       journal w @ Written raw audio_bytes #
         map (\<lambda>f. Attempt f raw) (attempts env raw w1 formats) @
         [Written p (normalized env audio_bytes p w)] \<and>
     (\<forall>seg. first_loaded env raw w1 formats = Some seg \<longrightarrow>
        load_format env (last (attempts env raw w1 formats)) raw w1 = Inr (Some seg) \<and>
        normalized env audio_bytes p w =
          (if len seg \<noteq> 0
           then (case export env seg ''wav'' of Inr wav \<Rightarrow> wav | Inl m \<Rightarrow> audio_bytes)
           else audio_bytes)) \<and>
     (first_loaded env raw w1 formats = None \<longrightarrow>
        attempts env raw w1 formats = formats \<and>
        (\<forall>f \<in> set formats. \<exists>m. load_format env f raw w1 = Inl m) \<and>
        normalized env audio_bytes p w = audio_bytes) \<and>
     (\<forall>audio_data language w'.
        b64decode env audio_data = Inr audio_bytes \<and> p = tempname env @ ''.wav'' \<and>
        w = create_file p w' \<longrightarrow>
        fst (voice_to_text env audio_data language w') =
          (case AudioFile env (normalized env audio_bytes p w) of
             Inl m \<Rightarrow> Inl (handler (Lib (OtherError m)))
           | Inr a \<Rightarrow> map_sum handler id (fst (backends env a language w'))))"
proof (intro conjI allI impI ballI)
  show "attempts env raw w1 formats = take (length (attempts env raw w1 formats)) formats"
    by (rule attempts_prefix)
next
  fix f assume "f \<in> set (butlast (attempts env raw w1 formats))"
  then show "\<exists>m. load_format env f raw w1 = Inl m"
    by (rule attempts_butlast_raise)
next
  show "journal (convert env audio_bytes p w) =
       journal w @ Written raw audio_bytes #
         map (\<lambda>f. Attempt f raw) (attempts env raw w1 formats) @
         [Written p (normalized env audio_bytes p w)]"
    by (simp add: raw w1 journal_convert)
next
  fix seg assume "first_loaded env raw w1 formats = Some seg"
  then show "load_format env (last (attempts env raw w1 formats)) raw w1 = Inr (Some seg)"
    by (simp add: first_loaded_last)
next
  fix seg assume "first_loaded env raw w1 formats = Some seg"
  then show "normalized env audio_bytes p w =
          (if len seg \<noteq> 0
           then (case export env seg ''wav'' of Inr wav \<Rightarrow> wav | Inl m \<Rightarrow> audio_bytes)
           else audio_bytes)"
    by (simp add: normalized_eq raw w1)
next
  assume n: "first_loaded env raw w1 formats = None"
  have l: "\<forall>f \<in> set formats. load_format env f raw w1 \<noteq> Inr None"
    by (simp add: load_format_formats)
  show "attempts env raw w1 formats = formats"
    using first_loaded_None [OF n l] by simp
  fix f assume "f \<in> set formats"
  then show "\<exists>m. load_format env f raw w1 = Inl m"
    using first_loaded_None [OF n l] by simp
next
  assume "first_loaded env raw w1 formats = None"
  then show "normalized env audio_bytes p w = audio_bytes"
    by (simp add: normalized_eq raw w1)
next
  fix audio_data language w'
  assume "b64decode env audio_data = Inr audio_bytes \<and> p = tempname env @ ''.wav'' \<and>
        w = create_file p w'"
  then show "fst (voice_to_text env audio_data language w') =
          (case AudioFile env (normalized env audio_bytes p w) of
             Inl m \<Rightarrow> Inl (handler (Lib (OtherError m)))
           | Inr a \<Rightarrow> map_sum handler id (fst (backends env a language w')))"
    by (simp add: fst_voice_to_text)
qed

theorem decoding_first_success_witness:
  "first_loaded env_ok ''/tmp/tmpk3v9x2ab.raw''
     (write_file ''/tmp/tmpk3v9x2ab.raw'' ''hello'' (create_file ''/tmp/tmpk3v9x2ab.wav'' w0))
     formats = Some (AudioSegment 600 ''hello'') \<and>
   normalized env_ok ''hello'' ''/tmp/tmpk3v9x2ab.wav'' (create_file ''/tmp/tmpk3v9x2ab.wav'' w0) =
     ''wav:hello'' \<and>
   load_format env_ok ''m4a'' ''/tmp/tmpk3v9x2ab.raw''
     (write_file ''/tmp/tmpk3v9x2ab.raw'' ''hello'' (create_file ''/tmp/tmpk3v9x2ab.wav'' w0)) =
     Inl ''Decoding failed'' \<and>
   fst (voice_to_text env_ok ''aGVsbG8='' ''en'' w0) = Inr (''hello world'', 17 / 20) \<and>
   first_loaded undecodable ''/tmp/tmpk3v9x2ab.raw''
     (write_file ''/tmp/tmpk3v9x2ab.raw'' ''hello'' (create_file ''/tmp/tmpk3v9x2ab.wav'' w0))
     formats = None \<and>
   normalized undecodable ''hello'' ''/tmp/tmpk3v9x2ab.wav''
     (create_file ''/tmp/tmpk3v9x2ab.wav'' w0) = ''hello''"
proof -
  let ?p = "''/tmp/tmpk3v9x2ab.wav''"
  let ?raw = "''/tmp/tmpk3v9x2ab.raw''"
  let ?w = "create_file ?p w0"
  let ?w1 = "write_file ?raw ''hello'' ?w"
  have raw: "?raw = replace ''.wav'' ''.raw'' ?p"
    by code_simp
  have some: "first_loaded env_ok ?raw ?w1 formats = Some (AudioSegment 600 ''hello'')"
    by code_simp
  have none: "first_loaded undecodable ?raw ?w1 formats = None"
    by code_simp
  have att: "attempts env_ok ?raw ?w1 formats = [''m4a'', ''mp3'']"
    by code_simp
  have ex: "export env_ok (AudioSegment 600 ''hello'') ''wav'' = Inr ''wav:hello''"
    by code_simp
  have d: "b64decode env_ok ''aGVsbG8='' = Inr ''hello''" "?p = tempname env_ok @ ''.wav''"
    by code_simp+
  have af: "AudioFile env_ok ''wav:hello'' = Inr (AudioData ''wav:hello'')"
    by code_simp
  have be: "fst (backends env_ok (AudioData ''wav:hello'') ''en'' w0) = Inr (''hello world'', 17 / 20)"
    by code_simp
  note ok = decoding_first_success [OF raw refl, of env_ok "''hello''" ?w]
  note un = decoding_first_success [OF raw refl, of undecodable "''hello''" ?w]
  have n1: "normalized env_ok ''hello'' ?p ?w = ''wav:hello''"
    using ok some ex by simp
  have l1: "load_format env_ok ''m4a'' ?raw ?w1 = Inl ''Decoding failed''"
    using ok att by (simp add: load_format_def read_with_def env_ok_def)
  have "fst (voice_to_text env_ok ''aGVsbG8='' ''en'' w0) =
          (case AudioFile env_ok (normalized env_ok ''hello'' ?p ?w) of
             Inl m \<Rightarrow> Inl (handler (Lib (OtherError m)))
           | Inr a \<Rightarrow> map_sum handler id (fst (backends env_ok a ''en'' w0)))"
    using ok d by blast
  then have v1: "fst (voice_to_text env_ok ''aGVsbG8='' ''en'' w0) = Inr (''hello world'', 17 / 20)"
    using n1 af be by simp
  have n2: "normalized undecodable ''hello'' ?p ?w = ''hello''"
    using un none by simp
  show ?thesis
    using some n1 l1 v1 none n2 by simp
qed

section \<open>Recognition: temporary files during decoding\<close>

text \<open>
  C9, as stated, on a payload that the m4a reader refuses and the mp3 reader accepts:
  both attempts read the same file, the raw copy written before the first attempt, and
  nothing is created or unlinked between them; the two temporary files of the call are
  unlinked at its end.
\<close>

theorem attempts_share_one_file:
  "journal (snd (voice_to_text env_ok ''aGVsbG8='' ''en'' w0)) =
     [Created ''/tmp/tmpk3v9x2ab.wav'',
      Written ''/tmp/tmpk3v9x2ab.raw'' ''hello'',
      Attempt ''m4a'' ''/tmp/tmpk3v9x2ab.raw'',
      Attempt ''mp3'' ''/tmp/tmpk3v9x2ab.raw'',
      Written ''/tmp/tmpk3v9x2ab.wav'' ''wav:hello'',
      Opened ''/tmp/tmpk3v9x2ab.wav'', Called_google ''en-US'',
      Unlinked ''/tmp/tmpk3v9x2ab.wav'',
      Unlinked ''/tmp/tmpk3v9x2ab.raw'']"
  by code_simp

text \<open>
  C9, amended: every candidate attempt reads one shared temporary file, the raw copy of
  the payload written once before the first attempt; no temporary file is created or
  released between attempts; the temporary WAV file and the raw copy are both released
  at the end of the call, after recognition.
\<close>

theorem decoding_uses_one_raw_file:
  assumes "b64decode env audio_data = Inr b"
  shows "journal (snd (voice_to_text env audio_data language w)) =
     journal w @
     [Created (tempname env @ ''.wav''),
      Written (replace ''.wav'' ''.raw'' (tempname env @ ''.wav'')) b] @
     map (\<lambda>f. Attempt f (replace ''.wav'' ''.raw'' (tempname env @ ''.wav'')))
       (attempts env (replace ''.wav'' ''.raw'' (tempname env @ ''.wav''))
          (write_file (replace ''.wav'' ''.raw'' (tempname env @ ''.wav'')) b
             (create_file (tempname env @ ''.wav'') w)) formats) @
     [Written (tempname env @ ''.wav'')
        (normalized env b (tempname env @ ''.wav'') (create_file (tempname env @ ''.wav'') w)),
      Opened (tempname env @ ''.wav'')] @
     (case heard env audio_data w of
        None \<Rightarrow> []
      | Some a \<Rightarrow> Called_google (get_recognition_language_code language) #
          (case recognize_google env a (get_recognition_language_code language) of
             Inl (RequestError m) \<Rightarrow> [Called_sphinx None]
           | _ \<Rightarrow> [])) @
     [Unlinked (tempname env @ ''.wav''),
      Unlinked (replace ''.wav'' ''.raw'' (tempname env @ ''.wav''))]"
  using assms by (rule journal_voice_to_text)

theorem decoding_uses_one_raw_file_witness:
  "b64decode undecodable ''aGVsbG8='' = Inr ''hello'' \<and>
   journal (snd (voice_to_text undecodable ''aGVsbG8='' ''ta'' w0)) =
     [Created ''/tmp/tmpk3v9x2ab.wav'',
      Written ''/tmp/tmpk3v9x2ab.raw'' ''hello'',
      Attempt ''m4a'' ''/tmp/tmpk3v9x2ab.raw'',
      Attempt ''mp3'' ''/tmp/tmpk3v9x2ab.raw'',
      Attempt ''wav'' ''/tmp/tmpk3v9x2ab.raw'',
      Attempt ''ogg'' ''/tmp/tmpk3v9x2ab.raw'',
      Attempt ''webm'' ''/tmp/tmpk3v9x2ab.raw'',
      Written ''/tmp/tmpk3v9x2ab.wav'' ''hello'',
      Opened ''/tmp/tmpk3v9x2ab.wav'', Called_google ''ta-IN'',
      Unlinked ''/tmp/tmpk3v9x2ab.wav'',
      Unlinked ''/tmp/tmpk3v9x2ab.raw'']"
proof -
  have d: "b64decode undecodable ''aGVsbG8='' = Inr ''hello''"
    by code_simp
  have t: "tempname undecodable @ ''.wav'' = ''/tmp/tmpk3v9x2ab.wav''"
    by code_simp
  have r: "replace ''.wav'' ''.raw'' ''/tmp/tmpk3v9x2ab.wav'' = ''/tmp/tmpk3v9x2ab.raw''"
    by code_simp
  have a: "attempts undecodable ''/tmp/tmpk3v9x2ab.raw''
             (write_file ''/tmp/tmpk3v9x2ab.raw'' ''hello''
                (create_file ''/tmp/tmpk3v9x2ab.wav'' w0)) formats =
           [''m4a'', ''mp3'', ''wav'', ''ogg'', ''webm'']"
    by code_simp
  have n: "normalized undecodable ''hello'' ''/tmp/tmpk3v9x2ab.wav''
             (create_file ''/tmp/tmpk3v9x2ab.wav'' w0) = ''hello''"
    by code_simp
  have h: "heard undecodable ''aGVsbG8='' w0 = Some (AudioData ''hello'')"
    by code_simp
  have g: "recognize_google undecodable (AudioData ''hello'') ''ta-IN'' = Inr ''hello world''"
    by code_simp
  have l: "get_recognition_language_code ''ta'' = ''ta-IN''"
    by code_simp
  have j: "journal w0 = []"
    by (simp add: w0_def)
  show ?thesis
    using decoding_uses_one_raw_file [OF d, of "''ta''" w0] d
    by (simp add: t r a n h g l j)
qed

section \<open>Recognition: the offline fallback\<close>

text \<open>
  C4, as stated, for the language \<open>hi\<close> with the online backend out of reach: the
  offline backend is called once, and it is given no language code, neither the
  unmapped code \<open>hi\<close> nor any other.
\<close>

theorem offline_backend_gets_no_language:
  "filter is_call (journal (snd (voice_to_text google_unreachable ''aGVsbG8='' ''hi'' w0))) =
     [Called_google ''hi-IN'', Called_sphinx None] \<and>
   Called_sphinx (Some ''hi'') \<notin>
     set (journal (snd (voice_to_text google_unreachable ''aGVsbG8='' ''hi'' w0)))"
  by code_simp

text \<open>
  C4, amended: when the audio reaches the backends and the online backend is
  unreachable, the call makes exactly two backend calls, the online one with the mapped
  locale and then one offline call with the audio alone (no language code is passed);
  there is no further retry.
\<close>

theorem offline_fallback_once:
  assumes h: "heard env audio_data w = Some a"
    and g: "recognize_google env a (get_recognition_language_code language) = Inl (RequestError m)"
  shows "filter is_call (journal (snd (voice_to_text env audio_data language w))) =
           filter is_call (journal w) @
             [Called_google (get_recognition_language_code language), Called_sphinx None]"
proof (cases "b64decode env audio_data")
  case (Inl m)
  with h show ?thesis by (simp add: heard_None)
next
  case (Inr b)
  show ?thesis
    by (simp add: journal_voice_to_text [OF Inr] h g)
qed

theorem offline_fallback_once_witness:
  "heard google_unreachable ''aGVsbG8='' w0 = Some (AudioData ''wav:hello'') \<and>
   recognize_google google_unreachable (AudioData ''wav:hello'')
     (get_recognition_language_code ''ta'') = Inl (RequestError ''recognition connection failed'') \<and>
   filter is_call (journal (snd (voice_to_text google_unreachable ''aGVsbG8='' ''ta'' w0))) =
     [Called_google ''ta-IN'', Called_sphinx None]"
proof -
  have h: "heard google_unreachable ''aGVsbG8='' w0 = Some (AudioData ''wav:hello'')"
    by code_simp
  have g: "recognize_google google_unreachable (AudioData ''wav:hello'')
     (get_recognition_language_code ''ta'') = Inl (RequestError ''recognition connection failed'')"
    by code_simp
  have l: "get_recognition_language_code ''ta'' = ''ta-IN''"
    by code_simp
  have j: "journal w0 = []"
    by (simp add: w0_def)
  show ?thesis
    using offline_fallback_once [OF h g] h g l j by simp
qed

section \<open>Recognition: the two failures\<close>

text \<open>
  C5: the call fails with \<open>UnintelligibleAudio\<close> exactly when the audio reached a
  backend that understood it and heard no speech (the online backend, or the offline one
  after the online one was unreachable), and with \<open>ServiceUnavailable\<close> exactly when
  the audio reached the backends and both were unreachable; the two failures differ,
  and so do their messages.
\<close>

theorem recognition_failures_distinct:
  "(fst (voice_to_text env audio_data language w) = Inl UnintelligibleAudio \<longleftrightarrow>
      (\<exists>a. heard env audio_data w = Some a \<and>
         (recognize_google env a (get_recognition_language_code language) = Inl UnknownValueError \<or>
          (\<exists>m. recognize_google env a (get_recognition_language_code language) =
                  Inl (RequestError m) \<and>
               recognize_sphinx env a None = Inl UnknownValueError)))) \<and>
   (fst (voice_to_text env audio_data language w) = Inl ServiceUnavailable \<longleftrightarrow>
      (\<exists>a m m'. heard env audio_data w = Some a \<and>
         recognize_google env a (get_recognition_language_code language) = Inl (RequestError m) \<and>
         recognize_sphinx env a None = Inl (RequestError m'))) \<and>
   UnintelligibleAudio \<noteq> ServiceUnavailable \<and>
   message UnintelligibleAudio \<noteq> message ServiceUnavailable"
proof (cases "b64decode env audio_data")
  case (Inl m)
  then show ?thesis
    by (simp add: voice_to_text_undecodable heard_None UnintelligibleAudio_def
          ServiceUnavailable_def)
next
  case (Inr b)
  show ?thesis
  proof (cases "AudioFile env (normalized env b (tempname env @ ''.wav'')
                   (create_file (tempname env @ ''.wav'') w))")
    case (Inl m)
    then show ?thesis
      by (simp add: fst_voice_to_text [OF Inr] heard_eq [OF Inr] handler_def
            UnintelligibleAudio_def ServiceUnavailable_def)
  next
    case a: (Inr a)
    show ?thesis
      by (simp add: fst_voice_to_text [OF Inr] heard_eq [OF Inr] a handler_def backends_def
            Let_def UnintelligibleAudio_def ServiceUnavailable_def
            split: sum.split lib_exc.split)
  qed
qed

theorem recognition_failures_distinct_witness:
  "fst (voice_to_text silence ''aGVsbG8='' ''en'' w0) = Inl UnintelligibleAudio \<and>
   fst (voice_to_text both_unreachable ''aGVsbG8='' ''en'' w0) = Inl ServiceUnavailable"
proof -
  have h1: "heard silence ''aGVsbG8='' w0 = Some (AudioData ''wav:hello'')"
    by code_simp
  have g1: "recognize_google silence (AudioData ''wav:hello'')
     (get_recognition_language_code ''en'') = Inl UnknownValueError"
    by code_simp
  have h2: "heard both_unreachable ''aGVsbG8='' w0 = Some (AudioData ''wav:hello'')"
    by code_simp
  have g2: "recognize_google both_unreachable (AudioData ''wav:hello'')
     (get_recognition_language_code ''en'') = Inl (RequestError ''recognition connection failed'')"
    by code_simp
  have s2: "recognize_sphinx both_unreachable (AudioData ''wav:hello'') None =
     Inl (RequestError ''missing PocketSphinx module'')"
    by code_simp
  show ?thesis
    using recognition_failures_distinct [of silence "''aGVsbG8=''" "''en''" w0]
      recognition_failures_distinct [of both_unreachable "''aGVsbG8=''" "''en''" w0]
      h1 g1 h2 g2 s2
    by blast
qed

section \<open>Synthesis\<close>

text \<open>The body of the inner \<open>try\<close> below 0.8, and from 0.8 on away from 1.0.\<close>

lemma adjust_slow:
  assumes "v < 4 / 5"
  shows "adjust env t p v w =
     (case read_with (from_mp3 env) t w of
        Inl m \<Rightarrow> (Inl m, w)
      | Inr audio \<Rightarrow>
          (case export env audio ''mp3'' of
             Inl m \<Rightarrow> (Inl m, w)
           | Inr data \<Rightarrow> (Inr (real (len audio) / 1000), write_file p data w)))"
  using assms by (simp add: adjust_def export_step_def split: sum.split)


text \<open>
  C7: for a speed in [0.5, 0.8) the synthesis object is built with \<open>slow=True\<close>;
  unless its constructor raises, the temporary file is created and the backend is asked
  once, by \<open>save\<close> on that slow object, whose failure is the failure of the call;
  all that follows in the journal is the writing and unlinking of files: no tempo
  scaling is applied.
\<close>

theorem slow_synthesis_without_scaling:
  assumes "1 / 2 \<le> voice_speed" and "voice_speed < 4 / 5"
  shows "\<exists>evs.
     journal (snd (text_to_speech env text language voice_speed w)) =
       journal w @ Constructed (GTTS text (get_tts_language_code language) True) #
         (case gTTS env text (get_tts_language_code language) True of
            Some m \<Rightarrow> []
          | None \<Rightarrow>
              Created (tempname env @ ''.mp3'') #
              Saved (GTTS text (get_tts_language_code language) True) (tempname env @ ''.mp3'') #
              evs) \<and>
     (\<forall>e \<in> set evs. (\<exists>q d. e = Written q d) \<or> (\<exists>q. e = Unlinked q)) \<and>
     (\<forall>m. gTTS env text (get_tts_language_code language) True = None \<and>
          save env (GTTS text (get_tts_language_code language) True) = Inl m \<longrightarrow>
          fst (text_to_speech env text language voice_speed w) = Inl (tts_handler m))"
proof -
  let ?tts = "GTTS text (get_tts_language_code language) True"
  let ?t = "tempname env @ ''.mp3''"
  show ?thesis
  proof (cases "gTTS env text (get_tts_language_code language) True")
    case (Some m)
    then show ?thesis
      using assms(2) by (intro exI [of _ "[]"]) (simp add: text_to_speech_def Let_def)
  next
    case None
    show ?thesis
    proof (cases "save env ?tts")
      case (Inl m)
      then show ?thesis
        using assms(2) None by (intro exI [of _ "[]"]) (simp add: text_to_speech_def Let_def)
    next
      case (Inr mp3)
      then show ?thesis
        using assms(2) None
        by (simp add: text_to_speech_def Let_def adjust_slow read_with_def exists_def
              split: sum.split)
    qed
  qed
qed

theorem slow_synthesis_without_scaling_witness:
  "(1::real) / 2 \<le> 3 / 5 \<and> (3::real) / 5 < 4 / 5 \<and>
   gTTS env_ok ''Hello'' (get_tts_language_code ''en'') True = None \<and>
   (\<exists>evs. journal (snd (text_to_speech env_ok ''Hello'' ''en'' (3 / 5) w0)) =
            journal w0 @ Constructed (GTTS ''Hello'' (get_tts_language_code ''en'') True) #
              Created (tempname env_ok @ ''.mp3'') #
              Saved (GTTS ''Hello'' (get_tts_language_code ''en'') True)
                (tempname env_ok @ ''.mp3'') # evs \<and>
          (\<forall>e \<in> set evs. (\<exists>q d. e = Written q d) \<or> (\<exists>q. e = Unlinked q))) \<and>
   save gtts_unreachable (GTTS ''Hello'' (get_tts_language_code ''en'') True) =
     Inl ''Failed to connect'' \<and>
   fst (text_to_speech gtts_unreachable ''Hello'' ''en'' (3 / 5) w0) =
     Inl (tts_handler ''Failed to connect'')"
proof -
  have a: "(1::real) / 2 \<le> 3 / 5" and b: "(3::real) / 5 < 4 / 5"
    by simp_all
  have c: "gTTS env_ok ''Hello'' (get_tts_language_code ''en'') True = None"
    by code_simp
  have c': "gTTS gtts_unreachable ''Hello'' (get_tts_language_code ''en'') True = None"
    by code_simp
  have s: "save gtts_unreachable (GTTS ''Hello'' (get_tts_language_code ''en'') True) =
     Inl ''Failed to connect''"
    by code_simp
  from slow_synthesis_without_scaling [OF a b, of env_ok "''Hello''" "''en''" w0]
  have ok: "\<exists>evs. journal (snd (text_to_speech env_ok ''Hello'' ''en'' (3 / 5) w0)) =
            journal w0 @ Constructed (GTTS ''Hello'' (get_tts_language_code ''en'') True) #
              Created (tempname env_ok @ ''.mp3'') #
              Saved (GTTS ''Hello'' (get_tts_language_code ''en'') True)
                (tempname env_ok @ ''.mp3'') # evs \<and>
          (\<forall>e \<in> set evs. (\<exists>q d. e = Written q d) \<or> (\<exists>q. e = Unlinked q))"
    by (simp add: c) blast
  from slow_synthesis_without_scaling [OF a b, of gtts_unreachable "''Hello''" "''en''" w0]
  have un: "fst (text_to_speech gtts_unreachable ''Hello'' ''en'' (3 / 5) w0) =
     Inl (tts_handler ''Failed to connect'')"
    using c' s by blast
  show ?thesis
    using a b c ok s un by blast
qed

section \<open>Synthesis: tempo scaling\<close>




section \<open>Synthesis: the temporary file\<close>

text \<open>
  C1, on the request (\<open>Hello\<close>, \<open>en\<close>, 1.0) when the synthesis backend cannot be
  reached and \<open>tts.save\<close> raises: the call fails and the temporary mp3 file created
  for it is still on the file system.
\<close>

theorem text_to_speech_leaves_temporary_file:
  "fst (text_to_speech gtts_unreachable ''Hello'' ''en'' 1 w0) =
     Inl (Failure ''Text to speech conversion failed: Failed to connect''
            (Lib (OtherError ''Failed to connect''))) \<and>
   files (snd (text_to_speech gtts_unreachable ''Hello'' ''en'' 1 w0)) ''/tmp/tmpk3v9x2ab.mp3'' =
     Some []"
  by code_simp

text \<open>
  The same for every request: a save that raises leaves the file behind; once the save
  has returned, every exit path removes it.
\<close>

lemma text_to_speech_keeps_temporary_file:
  assumes "gTTS env text (get_tts_language_code language) (voice_speed < 4 / 5) = None"
    and "save env (GTTS text (get_tts_language_code language) (voice_speed < 4 / 5)) = Inl m"
  shows "text_to_speech env text language voice_speed w =
           (Inl (tts_handler m),
            emit (Saved (GTTS text (get_tts_language_code language) (voice_speed < 4 / 5))
                    (tempname env @ ''.mp3''))
              (create_file (tempname env @ ''.mp3'')
                 (emit (Constructed (GTTS text (get_tts_language_code language)
                          (voice_speed < 4 / 5))) w)))"
    and "files (snd (text_to_speech env text language voice_speed w)) (tempname env @ ''.mp3'') =
           Some []"
  using assms by (simp_all add: text_to_speech_def Let_def)

lemma text_to_speech_removes_temporary_file:
  assumes "save env (GTTS text (get_tts_language_code language) (voice_speed < 4 / 5)) = Inr mp3"
   and "gTTS env text (get_tts_language_code language) (voice_speed < 4 / 5) = None"
  shows "files (snd (text_to_speech env text language voice_speed w)) (tempname env @ ''.mp3'') =
           None"
  using assms by (simp add: text_to_speech_def Let_def exists_def split: prod.split sum.split)

end
